theory Spec2Isabelle
  imports Complex_Main "HOL-Library.Word"
begin

section \<open>The transcription relay: \<^verbatim>\<open>src/app/api/transcribe/route.ts\<close>\<close>

text \<open>
  The route exports one function, \<^verbatim>\<open>POST\<close>. It reads the credential from the process
  environment, parses the multipart form of the request, validates the \<^verbatim>\<open>audio\<close> field,
  sends the bytes to the provider with \<^verbatim>\<open>fetch\<close>, and turns the provider's answer into a
  JSON response. The whole body sits in one \<^verbatim>\<open>try\<close> whose \<^verbatim>\<open>catch\<close> answers with status 500.

  The embedding keeps that structure. What the platform gives to the handler is an
  input of the model: the environment variable, the outcome of \<^verbatim>\<open>req.formData()\<close>, the
  outcome of \<^verbatim>\<open>fetch\<close> (with the outcome of reading the body), and \<^verbatim>\<open>JSON.parse\<close>. What the
  handler does to the outside is written into a state that is passed along: the lines
  given to \<^verbatim>\<open>console\<close> and the calls given to \<^verbatim>\<open>fetch\<close>. A thrown value is \<open>Inl\<close> of a sum.
\<close>

subsection \<open>JavaScript values\<close>

datatype jsnum = Finite rat | PosInf | NegInf | NaN

datatype jsval =
    JUndefined
  | JNull
  | JBool bool
  | JNum jsnum
  | JStr string
  | JArr "jsval list"
  | JObj "(string \<times> jsval) list"

text \<open>
  An object is the list of its own properties; a property is read with \<open>map_of\<close>.
  A value thrown inside the handler is an \<^verbatim>\<open>Error\<close> object of the runtime; the handler
  reads its \<^verbatim>\<open>message\<close> and, when that is empty, gives it to \<^verbatim>\<open>JSON.stringify\<close>, so a
  fault carries both texts.
\<close>

record fault =
  fault_message :: string
  fault_json :: string

definition TypeError :: "string \<Rightarrow> fault" where
  "TypeError m = \<lparr>fault_message = m, fault_json = ''{}''\<rparr>"

definition cannot_read :: "string \<Rightarrow> string \<Rightarrow> fault" where
  "cannot_read v k =
     TypeError (''Cannot read properties of '' @ v @ '' (reading '' @ [CHR 0x27] @ k @ [CHR 0x27] @ '')'')"

text \<open>\<^verbatim>\<open>!v\<close> is \<open>\<not> truthy v\<close>.\<close>

fun truthy :: "jsval \<Rightarrow> bool" where
  "truthy JUndefined = False"
| "truthy JNull = False"
| "truthy (JBool b) = b"
| "truthy (JNum (Finite r)) = (r \<noteq> 0)"
| "truthy (JNum NaN) = False"
| "truthy (JNum PosInf) = True"
| "truthy (JNum NegInf) = True"
| "truthy (JStr s) = (s \<noteq> [])"
| "truthy (JArr xs) = True"
| "truthy (JObj kvs) = True"

text \<open>
  Reading a property of a value that is neither \<^verbatim>\<open>null\<close> nor \<^verbatim>\<open>undefined\<close>. The handler
  reads the names \<^verbatim>\<open>results\<close>, \<^verbatim>\<open>channels\<close>, \<^verbatim>\<open>alternatives\<close>, \<^verbatim>\<open>transcript\<close>, \<^verbatim>\<open>error\<close> and
  \<^verbatim>\<open>message\<close>, which no array, string, number or boolean has, and the index \<^verbatim>\<open>0\<close>.
\<close>

fun own_prop :: "jsval \<Rightarrow> string \<Rightarrow> jsval" where
  "own_prop (JObj kvs) k = (case map_of kvs k of None \<Rightarrow> JUndefined | Some v \<Rightarrow> v)"
| "own_prop v k = JUndefined"

fun index0 :: "jsval \<Rightarrow> jsval" where
  "index0 (JArr []) = JUndefined"
| "index0 (JArr (x # xs)) = x"
| "index0 (JStr []) = JUndefined"
| "index0 (JStr (c # cs)) = JStr [c]"
| "index0 (JObj kvs) = own_prop (JObj kvs) ''0''"
| "index0 v = JUndefined"

text \<open>\<^verbatim>\<open>v.k\<close> throws a TypeError on \<^verbatim>\<open>null\<close> and \<^verbatim>\<open>undefined\<close>.\<close>

fun get_member :: "jsval \<Rightarrow> string \<Rightarrow> fault + jsval" where
  "get_member JUndefined k = Inl (cannot_read ''undefined'' k)"
| "get_member JNull k = Inl (cannot_read ''null'' k)"
| "get_member v k = Inr (own_prop v k)"

text \<open>\<^verbatim>\<open>v?.k\<close> and \<^verbatim>\<open>v?.[0]\<close> give \<^verbatim>\<open>undefined\<close> on \<^verbatim>\<open>null\<close> and \<^verbatim>\<open>undefined\<close>.\<close>

fun opt_member :: "jsval \<Rightarrow> string \<Rightarrow> jsval" where
  "opt_member JUndefined k = JUndefined"
| "opt_member JNull k = JUndefined"
| "opt_member v k = own_prop v k"

fun opt_index0 :: "jsval \<Rightarrow> jsval" where
  "opt_index0 JUndefined = JUndefined"
| "opt_index0 JNull = JUndefined"
| "opt_index0 v = index0 v"

text \<open>\<^verbatim>\<open>a || b\<close> on values already computed.\<close>

definition js_or :: "jsval \<Rightarrow> jsval \<Rightarrow> jsval" where
  "js_or a b = (if truthy a then a else b)"

definition startsWith :: "string \<Rightarrow> string \<Rightarrow> bool" where
  "startsWith s p = (take (length p) s = p)"

subsection \<open>What the handler receives\<close>

type_synonym byte = "8 word"

record File =
  file_name :: string
  file_type :: string
  file_bytes :: "byte list"

text \<open>
  \<^verbatim>\<open>formData.get\<close> gives \<^verbatim>\<open>null\<close>, a string (a text field) or a \<^verbatim>\<open>File\<close>; the cast of the
  source (\<^verbatim>\<open>as File | null\<close>) checks nothing.
\<close>

datatype form_value = FormString string | FormFile File

type_synonym form_data = "(string \<times> form_value) list"

record request =
  formData :: "fault + form_data"

record env =
  DEEPGRAM_API_KEY :: "string option"

record upstream_response =
  up_status :: nat
  up_body :: "fault + string"

definition ok :: "upstream_response \<Rightarrow> bool" where
  "ok r = (200 \<le> up_status r \<and> up_status r \<le> 299)"

subsection \<open>What the handler does to the outside\<close>

datatype level = LevelLog | LevelWarn | LevelError

datatype log_arg =
    LStr string
  | LNum nat
  | LFault fault
  | LObj "(string \<times> string) list"

record outbound =
  out_url :: string
  out_method :: string
  out_headers :: "(string \<times> string) list"
  out_body :: "byte list"

record world =
  console :: "(level \<times> log_arg list) list"
  fetched :: "outbound list"

definition console_log :: "log_arg list \<Rightarrow> world \<Rightarrow> world" where
  "console_log args w = w\<lparr>console := console w @ [(LevelLog, args)]\<rparr>"

definition console_warn :: "log_arg list \<Rightarrow> world \<Rightarrow> world" where
  "console_warn args w = w\<lparr>console := console w @ [(LevelWarn, args)]\<rparr>"

definition console_error :: "log_arg list \<Rightarrow> world \<Rightarrow> world" where
  "console_error args w = w\<lparr>console := console w @ [(LevelError, args)]\<rparr>"

definition fetch :: "outbound \<Rightarrow> world \<Rightarrow> world" where
  "fetch call w = w\<lparr>fetched := fetched w @ [call]\<rparr>"

record response =
  resp_body :: jsval
  resp_status :: nat

text \<open>
  The body of a response is JSON text. What the caller reads back from a value given
  to \<^verbatim>\<open>NextResponse.json\<close> is what \<^verbatim>\<open>JSON.stringify\<close> keeps of it: a number that is not finite
  and an \<^verbatim>\<open>undefined\<close> element of an array are written as \<^verbatim>\<open>null\<close>, a property whose value is
  \<^verbatim>\<open>undefined\<close> is left out.
\<close>

fun serialized :: "jsval \<Rightarrow> jsval" where
  "serialized JUndefined = JNull"
| "serialized (JNum (Finite r)) = JNum (Finite r)"
| "serialized (JNum n) = JNull"
| "serialized (JArr xs) = JArr (map serialized xs)"
| "serialized (JObj kvs) =
     JObj (map (\<lambda>(k, v). (k, serialized v)) (filter (\<lambda>(k, v). v \<noteq> JUndefined) kvs))"
| "serialized v = v"

definition json_response :: "jsval \<Rightarrow> nat \<Rightarrow> response" where
  "json_response b s = \<lparr>resp_body = serialized b, resp_status = s\<rparr>"

text \<open>
  \<^verbatim>\<open>NextResponse.json(body, {status})\<close>; without a status it is 200. It builds the response
  with the platform's \<^verbatim>\<open>Response\<close>, which throws a RangeError for a status outside 200 to
  599, and a TypeError for a body together with a null body status: 204, 205 and 304
  within that range. The messages are those of the fetch implementation of Node.
\<close>

definition RangeError :: "string \<Rightarrow> fault" where
  "RangeError m = \<lparr>fault_message = m, fault_json = ''{}''\<rparr>"

definition null_body_status :: "nat \<Rightarrow> string option" where
  "null_body_status s =
     (if s = 204 then Some ''204'' else if s = 205 then Some ''205''
      else if s = 304 then Some ''304'' else None)"

definition refused :: "nat \<Rightarrow> fault option" where
  \<open>refused s =
     (if s < 200 \<or> 599 < s
      then Some (RangeError ''init["status"] must be in the range of 200 to 599, inclusive.'')
      else (case null_body_status s of
              Some digits \<Rightarrow>
                Some (TypeError (''Response constructor: Invalid response status code '' @ digits))
            | None \<Rightarrow> None))\<close>

definition NextResponse_json :: "jsval \<Rightarrow> nat \<Rightarrow> fault + response" where
  "NextResponse_json b s =
     (case refused s of Some err \<Rightarrow> Inl err | None \<Rightarrow> Inr (json_response b s))"

definition error_json :: "string \<Rightarrow> jsval" where
  "error_json m = JObj [(''error'', JStr m)]"

definition deepgram_url :: string where
  "deepgram_url = ''https://api.deepgram.com/v1/listen?model=nova-2&smart_format=true&punctuate=true''"

subsection \<open>The handler\<close>

text \<open>
  Lines 60 to 68, the inner \<^verbatim>\<open>try\<close>: \<^verbatim>\<open>JSON.parse(errorText)\<close>, then
  \<^verbatim>\<open>errorJson.error || errorJson.message || "Deepgram API error"\<close>. The second operand of
  \<^verbatim>\<open>||\<close> is read only when the first is falsy.
\<close>

definition error_of_json :: "(string \<Rightarrow> fault + jsval) \<Rightarrow> string \<Rightarrow> fault + jsval" where
  "error_of_json JSON_parse errorText =
     (case JSON_parse errorText of
        Inl e \<Rightarrow> Inl e
      | Inr errorJson \<Rightarrow>
          (case get_member errorJson ''error'' of
             Inl e \<Rightarrow> Inl e
           | Inr err \<Rightarrow>
               if truthy err then Inr err
               else (case get_member errorJson ''message'' of
                       Inl e \<Rightarrow> Inl e
                     | Inr msg \<Rightarrow> Inr (js_or msg (JStr ''Deepgram API error'')))))"

text \<open>
  Lines 57 to 69: the provider answered with a status outside 200 to 299. The inner
  \<^verbatim>\<open>try\<close> holds the call of \<^verbatim>\<open>NextResponse.json\<close> too; what its \<^verbatim>\<open>catch\<close> throws leaves the
  outer \<^verbatim>\<open>try\<close>.
\<close>

definition upstream_error ::
  "(string \<Rightarrow> fault + jsval) \<Rightarrow> upstream_response \<Rightarrow> world \<Rightarrow> (fault + response) \<times> world" where
  "upstream_error JSON_parse r w =
     (case up_body r of
        Inl e \<Rightarrow> (Inl e, w)
      | Inr errorText \<Rightarrow>
          let w1 = console_error
                     [LStr ''Deepgram API returned an error:'', LNum (up_status r), LStr errorText] w
          in (case (case error_of_json JSON_parse errorText of
                      Inl e \<Rightarrow> Inl e
                    | Inr v \<Rightarrow> NextResponse_json (JObj [(''error'', v)]) (up_status r)) of
                Inr answer \<Rightarrow> (Inr answer, w1)
              | Inl e \<Rightarrow>
                  (NextResponse_json (error_json (''Deepgram API error: '' @ errorText))
                     (up_status r), w1)))"

text \<open>
  Line 74 without its \<^verbatim>\<open>|| ""\<close>:
  \<^verbatim>\<open>deepgramData.results?.channels?.[0]?.alternatives?.[0]?.transcript\<close>.
  Only the first access is not optional.
\<close>

definition transcript_path :: "jsval \<Rightarrow> fault + jsval" where
  "transcript_path deepgramData =
     (case get_member deepgramData ''results'' of
        Inl e \<Rightarrow> Inl e
      | Inr results \<Rightarrow>
          Inr (opt_member (opt_index0 (opt_member (opt_index0 (opt_member results ''channels''))
                 ''alternatives'')) ''transcript''))"

text \<open>Lines 71 to 81: \<^verbatim>\<open>deepgramResponse.json()\<close> reads the body and parses it.\<close>

definition normalize ::
  "(string \<Rightarrow> fault + jsval) \<Rightarrow> upstream_response \<Rightarrow> world \<Rightarrow> (fault + response) \<times> world" where
  "normalize JSON_parse r w =
     (case up_body r of
        Inl e \<Rightarrow> (Inl e, w)
      | Inr text \<Rightarrow>
          (case JSON_parse text of
             Inl e \<Rightarrow> (Inl e, w)
           | Inr deepgramData \<Rightarrow>
               (case transcript_path deepgramData of
                  Inl e \<Rightarrow> (Inl e, w)
                | Inr p \<Rightarrow>
                    let transcription = js_or p (JStr [])
                    in if \<not> truthy transcription
                       then (NextResponse_json
                               (error_json ''No transcript could be generated from the audio.'') 404,
                             console_warn [LStr ''Deepgram returned no transcription text.''] w)
                       else (NextResponse_json (JObj [(''transcript'', transcription)]) 200, w))))"

text \<open>
  Lines 30 to 55: the four log lines and the call. The \<^verbatim>\<open>Authorization\<close> header that is
  logged is the masked text; the one that is sent carries the key.
\<close>

definition announce :: "File \<Rightarrow> world \<Rightarrow> world" where
  "announce audioFile w =
     console_log [LStr ''Body size:'', LNum (length (file_bytes audioFile)), LStr ''bytes'']
       (console_log [LStr ''Headers:'',
                     LObj [(''Authorization'', ''Token [API Key Masked]''),
                           (''Content-Type'', file_type audioFile)]]
          (console_log [LStr ''Sending request to Deepgram:'', LStr deepgram_url]
             (console_log [LStr ''Received audio file:'', LStr (file_name audioFile),
                           LStr (file_type audioFile), LNum (length (file_bytes audioFile)),
                           LStr ''bytes''] w)))"

definition deepgram_call :: "string \<Rightarrow> File \<Rightarrow> outbound" where
  "deepgram_call deepgramApiKey audioFile =
     \<lparr>out_url = deepgram_url,
      out_method = ''POST'',
      out_headers = [(''Authorization'', ''Token '' @ deepgramApiKey),
                     (''Content-Type'', file_type audioFile)],
      out_body = file_bytes audioFile\<rparr>"

definition forward ::
  "(string \<Rightarrow> fault + jsval) \<Rightarrow> string \<Rightarrow> File \<Rightarrow> fault + upstream_response \<Rightarrow> world
     \<Rightarrow> (fault + response) \<times> world" where
  "forward JSON_parse deepgramApiKey audioFile upstream w =
     (let w1 = fetch (deepgram_call deepgramApiKey audioFile) (announce audioFile w)
      in case upstream of
           Inl e \<Rightarrow> (Inl e, w1)
         | Inr deepgramResponse \<Rightarrow>
             if \<not> ok deepgramResponse then upstream_error JSON_parse deepgramResponse w1
             else normalize JSON_parse deepgramResponse w1)"

text \<open>Lines 19 to 28: the two checks on the \<^verbatim>\<open>audio\<close> field.\<close>

definition validate ::
  "(string \<Rightarrow> fault + jsval) \<Rightarrow> string \<Rightarrow> form_value option \<Rightarrow> fault + upstream_response \<Rightarrow> world
     \<Rightarrow> (fault + response) \<times> world" where
  "validate JSON_parse deepgramApiKey audioFile upstream w =
     (case audioFile of
        None \<Rightarrow>
          (NextResponse_json (error_json ''No audio file provided.'') 400,
           console_error [LStr ''Server Error: No audio file provided in request.''] w)
      | Some (FormString s) \<Rightarrow>
          if s = []
          then (NextResponse_json (error_json ''No audio file provided.'') 400,
                console_error [LStr ''Server Error: No audio file provided in request.''] w)
          else (Inl (cannot_read ''undefined'' ''startsWith''), w)
      | Some (FormFile f) \<Rightarrow>
          if \<not> startsWith (file_type f) ''audio/''
          then (NextResponse_json
                  (error_json ''Invalid file type. Only audio files are supported.'') 400,
                console_error [LStr ''Server Error: Invalid file type provided:'',
                               LStr (file_type f)] w)
          else forward JSON_parse deepgramApiKey f upstream w)"

text \<open>
  Lines 4 to 81, the body of the \<^verbatim>\<open>try\<close>. \<^verbatim>\<open>!deepgramApiKey\<close> holds for a variable that is
  not set and for one set to the empty string.
\<close>

definition not_configured :: "world \<Rightarrow> (fault + response) \<times> world" where
  "not_configured w =
     (NextResponse_json
        (error_json ''Deepgram API Key not configured. Please set DEEPGRAM_API_KEY environment variable.'')
        500,
      console_error [LStr ''Server Error: DEEPGRAM_API_KEY environment variable not set.''] w)"

definition try_block ::
  "(string \<Rightarrow> fault + jsval) \<Rightarrow> env \<Rightarrow> request \<Rightarrow> fault + upstream_response \<Rightarrow> world
     \<Rightarrow> (fault + response) \<times> world" where
  "try_block JSON_parse e req upstream w =
     (case DEEPGRAM_API_KEY e of
        None \<Rightarrow> not_configured w
      | Some deepgramApiKey \<Rightarrow>
          if deepgramApiKey = [] then not_configured w
          else (case formData req of
                  Inl err \<Rightarrow> (Inl err, w)
                | Inr fd \<Rightarrow> validate JSON_parse deepgramApiKey (map_of fd ''audio'') upstream w))"

text \<open>
  Lines 82 to 97, the \<^verbatim>\<open>catch\<close>. Its status is the literal 500, which the platform accepts,
  so this call of \<^verbatim>\<open>NextResponse.json\<close> returns its response (lemma
  \<open>NextResponse_json_literal\<close> below).
\<close>

definition errorMessage :: "fault \<Rightarrow> string" where
  "errorMessage error =
     (if fault_message error \<noteq> []
      then ''Transcription failed: '' @ fault_message error
      else ''An unknown error occurred: '' @ fault_json error)"

definition catch_block :: "fault \<Rightarrow> world \<Rightarrow> response \<times> world" where
  "catch_block error w =
     (json_response (error_json (errorMessage error)) 500,
      console_error [LStr ''Server-side transcription error:'', LFault error] w)"

definition POST ::
  "(string \<Rightarrow> fault + jsval) \<Rightarrow> env \<Rightarrow> request \<Rightarrow> fault + upstream_response \<Rightarrow> world
     \<Rightarrow> response \<times> world" where
  "POST JSON_parse e req upstream w =
     (case try_block JSON_parse e req upstream w of
        (Inr r, w') \<Rightarrow> (r, w')
      | (Inl error, w') \<Rightarrow> catch_block error w')"

subsection \<open>The words of the specification\<close>

text \<open>
  The specification speaks of the transcript text in the nested result structure of
  the provider's body, first channel, first alternative, which may be absent. This is
  that text for any body, \<^verbatim>\<open>undefined\<close> when a step of the way is absent; it is written
  from the specification, not from line 74.
\<close>

definition spec_transcript :: "jsval \<Rightarrow> jsval" where
  "spec_transcript body =
     opt_member (opt_index0 (opt_member (opt_index0 (opt_member (opt_member body ''results'')
       ''channels'')) ''alternatives'')) ''transcript''"

subsection \<open>What the platform does with the headers of the call\<close>






subsection \<open>Concrete runs\<close>

text \<open>
  The inputs of the runs that the theorems below are evaluated on. \<open>parse_table\<close> stands
  for \<^verbatim>\<open>JSON.parse\<close> on the texts it lists and throws on every other text.
\<close>

definition parse_table :: "(string \<times> jsval) list \<Rightarrow> string \<Rightarrow> fault + jsval" where
  "parse_table tbl s =
     (case map_of tbl s of
        None \<Rightarrow> Inl \<lparr>fault_message = ''Unexpected token'', fault_json = ''{}''\<rparr>
      | Some v \<Rightarrow> Inr v)"

definition hello_text :: string where
  \<open>hello_text = ''{"results":{"channels":[{"alternatives":[{"transcript":"hello world"}]}]}}''\<close>

definition hello_json :: jsval where
  "hello_json =
     JObj [(''results'', JObj [(''channels'',
       JArr [JObj [(''alternatives'', JArr [JObj [(''transcript'', JStr ''hello world'')]])]])])]"

definition w0 :: world where
  "w0 = \<lparr>console = [], fetched = []\<rparr>"

definition recording :: File where
  "recording = \<lparr>file_name = ''recording.webm'', file_type = ''audio/webm'', file_bytes = [26, 69, 223, 163]\<rparr>"

definition req0 :: request where
  "req0 = \<lparr>formData = Inr [(''audio'', FormFile recording)]\<rparr>"

definition env0 :: env where
  "env0 = \<lparr>DEEPGRAM_API_KEY = Some ''secret''\<rparr>"

definition picture :: File where
  "picture = \<lparr>file_name = ''cat.png'', file_type = ''image/png'', file_bytes = [137, 80, 78, 71]\<rparr>"

definition not_multipart :: fault where
  "not_multipart = \<lparr>fault_message = ''Failed to parse body as FormData.'', fault_json = ''{}''\<rparr>"

definition no_channels_text :: string where
  \<open>no_channels_text = ''{"results":{"channels":[]}}''\<close>

definition no_channels_json :: jsval where
  "no_channels_json = JObj [(''results'', JObj [(''channels'', JArr [])])]"

definition bad_audio_text :: string where
  \<open>bad_audio_text = ''{"error":"bad audio"}''\<close>

definition bad_audio_json :: jsval where
  "bad_audio_json = JObj [(''error'', JStr ''bad audio'')]"

text \<open>
  The two shapes of a body that the handler gives to \<^verbatim>\<open>NextResponse.json\<close>: \<^verbatim>\<open>{error: ...}\<close> and
  \<^verbatim>\<open>{transcript: ...}\<close>.
\<close>

definition structured :: "response \<Rightarrow> bool" where
  "structured r =
     (case resp_body r of
        JObj [(k, v)] \<Rightarrow> k = ''error'' \<or> k = ''transcript''
      | _ \<Rightarrow> False)"

definition fetch_failed :: fault where
  "fetch_failed = \<lparr>fault_message = ''fetch failed'', fault_json = ''{}''\<rparr>"

definition silence :: File where
  "silence = \<lparr>file_name = ''recording.webm'', file_type = ''audio/webm'', file_bytes = []\<rparr>"

definition too_large_text :: string where
  \<open>too_large_text = ''{"error":1e999}''\<close>

definition too_large_json :: jsval where
  "too_large_json = JObj [(''error'', JNum PosInf)]"


section \<open>Properties of the relay\<close>

subsection \<open>Steps shared by the proofs\<close>

lemma NextResponse_json_literal:
  "NextResponse_json b 200 = Inr (json_response b 200)"
  "NextResponse_json b 400 = Inr (json_response b 400)"
  "NextResponse_json b 404 = Inr (json_response b 404)"
  "NextResponse_json b 500 = Inr (json_response b 500)"
  by (simp_all add: NextResponse_json_def refused_def null_body_status_def)

lemma json_response_error:
  "json_response (error_json m) s = \<lparr>resp_body = JObj [(''error'', JStr m)], resp_status = s\<rparr>"
  by (simp add: json_response_def error_json_def)

lemma truthy_defined: "truthy v \<Longrightarrow> v \<noteq> JUndefined"
  by auto

lemma json_response_single:
  "truthy v \<Longrightarrow>
     json_response (JObj [(k, v)]) s = \<lparr>resp_body = JObj [(k, serialized v)], resp_status = s\<rparr>"
  by (auto simp add: json_response_def)

lemma POST_returned:
  "try_block JSON_parse e req upstream w = (Inr r, w') \<Longrightarrow> POST JSON_parse e req upstream w = (r, w')"
  by (simp add: POST_def)

lemma POST_caught:
  "try_block JSON_parse e req upstream w = (Inl err, w') \<Longrightarrow>
     POST JSON_parse e req upstream w = catch_block err w'"
  by (simp add: POST_def)

lemma try_block_forward:
  assumes "DEEPGRAM_API_KEY e = Some k" "k \<noteq> []"
    and "formData req = Inr fd" "map_of fd ''audio'' = Some (FormFile f)"
    and "startsWith (file_type f) ''audio/''"
  shows "try_block JSON_parse e req upstream w = forward JSON_parse k f upstream w"
  using assms by (simp add: try_block_def validate_def)

lemma transcript_path_shape:
  assumes "map_of data ''results'' = Some (JObj results)"
    and "map_of results ''channels'' = Some (JArr (JObj channel # channels))"
    and "map_of channel ''alternatives'' = Some (JArr (JObj alternative # alternatives))"
    and "map_of alternative ''transcript'' = Some t"
  shows "transcript_path (JObj data) = Inr t"
  using assms by (simp add: transcript_path_def)

subsection \<open>The transcript of a successful answer\<close>

text \<open>
  C1. When the provider answers with a success status and a JSON body of the shape
  \<^verbatim>\<open>{results:{channels:[{alternatives:[{transcript: t}]}]}}\<close> with \<open>t\<close> a non-empty string,
  the handler returns \<^verbatim>\<open>{transcript: t}\<close> with status 200: the text of the first alternative
  of the first channel. Further properties, channels and alternatives do not matter.
  The credential is configured and the request carries an audio file.
\<close>

theorem POST_success_transcript:
  assumes "DEEPGRAM_API_KEY e = Some k" "k \<noteq> []"
    and "formData req = Inr fd" "map_of fd ''audio'' = Some (FormFile f)"
    and "startsWith (file_type f) ''audio/''"
    and "ok r" "up_body r = Inr bodyText" "JSON_parse bodyText = Inr (JObj data)"
    and "map_of data ''results'' = Some (JObj results)"
    and "map_of results ''channels'' = Some (JArr (JObj channel # channels))"
    and "map_of channel ''alternatives'' = Some (JArr (JObj alternative # alternatives))"
    and "map_of alternative ''transcript'' = Some (JStr t)" "t \<noteq> []"
  shows "fst (POST JSON_parse e req (Inr r) w) =
           \<lparr>resp_body = JObj [(''transcript'', JStr t)], resp_status = 200\<rparr>"
proof -
  have path: "transcript_path (JObj data) = Inr (JStr t)"
    using assms(9-12) by (rule transcript_path_shape)
  have "fst (normalize JSON_parse r w') = Inr (json_response (JObj [(''transcript'', JStr t)]) 200)"
    for w'
    using assms(7,8,13) path by (simp add: normalize_def js_or_def NextResponse_json_literal)
  then have "fst (forward JSON_parse k f (Inr r) w) =
          Inr (json_response (JObj [(''transcript'', JStr t)]) 200)"
    using assms(6) by (simp add: forward_def Let_def)
  then have "fst (try_block JSON_parse e req (Inr r) w) =
          Inr (json_response (JObj [(''transcript'', JStr t)]) 200)"
    using try_block_forward[OF assms(1-5)] by simp
  then show ?thesis
    using assms(13)
    by (cases "try_block JSON_parse e req (Inr r) w") (simp add: POST_def json_response_single)
qed

theorem POST_success_transcript_witness:
  "fst (POST (parse_table [(hello_text, hello_json)]) env0 req0
          (Inr \<lparr>up_status = 200, up_body = Inr hello_text\<rparr>) w0) =
     \<lparr>resp_body = JObj [(''transcript'', JStr ''hello world'')], resp_status = 200\<rparr>"
  by (rule POST_success_transcript[where k = "''secret''" and fd = "[(''audio'', FormFile recording)]"
        and f = recording and bodyText = hello_text
        and data = "[(''results'', JObj [(''channels'',
             JArr [JObj [(''alternatives'', JArr [JObj [(''transcript'', JStr ''hello world'')]])]])])]"
        and results = "[(''channels'',
             JArr [JObj [(''alternatives'', JArr [JObj [(''transcript'', JStr ''hello world'')]])]])]"
        and channel = "[(''alternatives'', JArr [JObj [(''transcript'', JStr ''hello world'')]])]"
        and channels = "[]"
        and alternative = "[(''transcript'', JStr ''hello world'')]"
        and alternatives = "[]"])
     (simp_all add: env0_def req0_def recording_def startsWith_def ok_def parse_table_def hello_json_def)

subsection \<open>The checks before the call\<close>

text \<open>
  C4. When no credential is configured (the variable is not set, or set to the empty
  string), the handler returns the status 500 with its configuration message, whatever
  the request is, and makes no call to the provider: the list of calls is unchanged.
\<close>

theorem POST_unconfigured_no_fetch:
  assumes "DEEPGRAM_API_KEY e = None \<or> DEEPGRAM_API_KEY e = Some []"
  shows "fst (POST JSON_parse e req upstream w) =
           \<lparr>resp_body = JObj [(''error'', JStr ''Deepgram API Key not configured. Please set DEEPGRAM_API_KEY environment variable.'')],
            resp_status = 500\<rparr>
         \<and> fetched (snd (POST JSON_parse e req upstream w)) = fetched w"
proof -
  have "try_block JSON_parse e req upstream w = not_configured w"
    using assms by (auto simp add: try_block_def)
  then show ?thesis
    by (simp add: POST_def not_configured_def NextResponse_json_literal json_response_def error_json_def console_error_def)
qed

theorem POST_unconfigured_no_fetch_witness:
  "fst (POST (parse_table []) \<lparr>DEEPGRAM_API_KEY = None\<rparr> req0
          (Inr \<lparr>up_status = 200, up_body = Inr hello_text\<rparr>) w0) =
     \<lparr>resp_body = JObj [(''error'', JStr ''Deepgram API Key not configured. Please set DEEPGRAM_API_KEY environment variable.'')],
      resp_status = 500\<rparr>
   \<and> fetched (snd (POST (parse_table []) \<lparr>DEEPGRAM_API_KEY = None\<rparr> req0
          (Inr \<lparr>up_status = 200, up_body = Inr hello_text\<rparr>) w0)) = []"
  using POST_unconfigured_no_fetch[of "\<lparr>DEEPGRAM_API_KEY = None\<rparr>" "parse_table []" req0
          "Inr \<lparr>up_status = 200, up_body = Inr hello_text\<rparr>" w0]
  by (simp add: w0_def)

text \<open>
  C5. When the form of the request has no \<^verbatim>\<open>audio\<close> field, the handler returns the status
  400 with the message "No audio file provided." and makes no call to the provider.
  The credential is configured.
\<close>

theorem POST_missing_audio_400:
  assumes "DEEPGRAM_API_KEY e = Some k" "k \<noteq> []"
    and "formData req = Inr fd" "map_of fd ''audio'' = None"
  shows "fst (POST JSON_parse e req upstream w) =
           \<lparr>resp_body = JObj [(''error'', JStr ''No audio file provided.'')], resp_status = 400\<rparr>
         \<and> fetched (snd (POST JSON_parse e req upstream w)) = fetched w"
proof -
  have "try_block JSON_parse e req upstream w =
          (Inr (json_response (error_json ''No audio file provided.'') 400),
           console_error [LStr ''Server Error: No audio file provided in request.''] w)"
    using assms by (simp add: try_block_def validate_def NextResponse_json_literal)
  then show ?thesis
    by (simp add: POST_def NextResponse_json_literal json_response_def error_json_def console_error_def)
qed

theorem POST_missing_audio_400_witness:
  "fst (POST (parse_table []) env0 \<lparr>formData = Inr [(''title'', FormString ''memo'')]\<rparr>
          (Inr \<lparr>up_status = 200, up_body = Inr hello_text\<rparr>) w0) =
     \<lparr>resp_body = JObj [(''error'', JStr ''No audio file provided.'')], resp_status = 400\<rparr>
   \<and> fetched (snd (POST (parse_table []) env0 \<lparr>formData = Inr [(''title'', FormString ''memo'')]\<rparr>
          (Inr \<lparr>up_status = 200, up_body = Inr hello_text\<rparr>) w0)) = []"
  using POST_missing_audio_400[of env0 "''secret''" "\<lparr>formData = Inr [(''title'', FormString ''memo'')]\<rparr>"
          "[(''title'', FormString ''memo'')]" "parse_table []"
          "Inr \<lparr>up_status = 200, up_body = Inr hello_text\<rparr>" w0]
  by (simp add: env0_def w0_def)

text \<open>
  C6. When the \<^verbatim>\<open>audio\<close> field is a file whose declared type does not start with
  \<^verbatim>\<open>audio/\<close>, the handler returns the status 400 with the message "Invalid file type. Only
  audio files are supported.", whatever the bytes of the file are, and makes no call
  to the provider. The credential is configured.
\<close>

theorem POST_invalid_type_400:
  assumes "DEEPGRAM_API_KEY e = Some k" "k \<noteq> []"
    and "formData req = Inr fd" "map_of fd ''audio'' = Some (FormFile f)"
    and "\<not> startsWith (file_type f) ''audio/''"
  shows "fst (POST JSON_parse e req upstream w) =
           \<lparr>resp_body = JObj [(''error'', JStr ''Invalid file type. Only audio files are supported.'')],
            resp_status = 400\<rparr>
         \<and> fetched (snd (POST JSON_parse e req upstream w)) = fetched w"
proof -
  have "try_block JSON_parse e req upstream w =
          (Inr (json_response (error_json ''Invalid file type. Only audio files are supported.'') 400),
           console_error [LStr ''Server Error: Invalid file type provided:'', LStr (file_type f)] w)"
    using assms by (simp add: try_block_def validate_def NextResponse_json_literal)
  then show ?thesis
    by (simp add: POST_def NextResponse_json_literal json_response_def error_json_def console_error_def)
qed

theorem POST_invalid_type_400_witness:
  "fst (POST (parse_table []) env0 \<lparr>formData = Inr [(''audio'', FormFile picture)]\<rparr>
          (Inr \<lparr>up_status = 200, up_body = Inr hello_text\<rparr>) w0) =
     \<lparr>resp_body = JObj [(''error'', JStr ''Invalid file type. Only audio files are supported.'')],
      resp_status = 400\<rparr>
   \<and> fetched (snd (POST (parse_table []) env0 \<lparr>formData = Inr [(''audio'', FormFile picture)]\<rparr>
          (Inr \<lparr>up_status = 200, up_body = Inr hello_text\<rparr>) w0)) = []"
  using POST_invalid_type_400[of env0 "''secret''" "\<lparr>formData = Inr [(''audio'', FormFile picture)]\<rparr>"
          "[(''audio'', FormFile picture)]" picture "parse_table []"
          "Inr \<lparr>up_status = 200, up_body = Inr hello_text\<rparr>" w0]
  by (simp add: env0_def w0_def picture_def startsWith_def)

text \<open>
  C10. When the body of the request cannot be parsed as form data, \<^verbatim>\<open>req.formData()\<close>
  throws; with a credential configured the fault reaches the \<^verbatim>\<open>catch\<close> of the handler, which
  returns the status 500 (not 400) with "Transcription failed: " followed by the
  message of the fault. No call is made to the provider. The fault of the runtime
  carries a message.
\<close>

theorem POST_formData_fault_500:
  assumes "DEEPGRAM_API_KEY e = Some k" "k \<noteq> []"
    and "formData req = Inl err" "fault_message err \<noteq> []"
  shows "fst (POST JSON_parse e req upstream w) =
           \<lparr>resp_body = JObj [(''error'', JStr (''Transcription failed: '' @ fault_message err))],
            resp_status = 500\<rparr>
         \<and> resp_status (fst (POST JSON_parse e req upstream w)) \<noteq> 400
         \<and> fst (try_block JSON_parse e req upstream w) = Inl err
         \<and> fetched (snd (POST JSON_parse e req upstream w)) = fetched w"
proof -
  have "try_block JSON_parse e req upstream w = (Inl err, w)"
    using assms by (simp add: try_block_def)
  then show ?thesis
    using assms(4)
    by (simp add: POST_def catch_block_def errorMessage_def NextResponse_json_literal json_response_def error_json_def
        console_error_def)
qed

theorem POST_formData_fault_500_witness:
  "fst (POST (parse_table []) env0 \<lparr>formData = Inl not_multipart\<rparr>
          (Inr \<lparr>up_status = 200, up_body = Inr hello_text\<rparr>) w0) =
     \<lparr>resp_body = JObj [(''error'', JStr ''Transcription failed: Failed to parse body as FormData.'')],
      resp_status = 500\<rparr>
   \<and> fetched (snd (POST (parse_table []) env0 \<lparr>formData = Inl not_multipart\<rparr>
          (Inr \<lparr>up_status = 200, up_body = Inr hello_text\<rparr>) w0)) = []"
  using POST_formData_fault_500[of env0 "''secret''" "\<lparr>formData = Inl not_multipart\<rparr>"
          not_multipart "parse_table []"
          "Inr \<lparr>up_status = 200, up_body = Inr hello_text\<rparr>" w0]
  by (simp add: env0_def w0_def not_multipart_def)

subsection \<open>The provider's answer\<close>

lemma forward_ok:
  "ok r \<Longrightarrow> forward JSON_parse k f (Inr r) w =
     normalize JSON_parse r (fetch (deepgram_call k f) (announce f w))"
  by (simp add: forward_def)

lemma forward_not_ok:
  "\<not> ok r \<Longrightarrow> forward JSON_parse k f (Inr r) w =
     upstream_error JSON_parse r (fetch (deepgram_call k f) (announce f w))"
  by (simp add: forward_def)

lemma transcript_path_spec:
  "deepgramData \<noteq> JNull \<Longrightarrow> deepgramData \<noteq> JUndefined \<Longrightarrow>
     transcript_path deepgramData = Inr (spec_transcript deepgramData)"
  by (cases deepgramData) (simp_all add: transcript_path_def spec_transcript_def)

text \<open>
  C3, as the code has it. When the provider answers with a success status, the body
  parses to a value other than \<^verbatim>\<open>null\<close>, and the transcript text of that value (first
  channel, first alternative) is absent or falsy, as the empty string is, the handler
  returns the status 404 with the message "No transcript could be generated from the
  audio.". The \<^verbatim>\<open>try\<close> returns this response itself: it is not the answer of the \<^verbatim>\<open>catch\<close>,
  whose status is 500. (\<^verbatim>\<open>JSON.parse\<close> never gives \<^verbatim>\<open>undefined\<close>.)
\<close>

theorem POST_empty_transcript_404:
  assumes "DEEPGRAM_API_KEY e = Some k" "k \<noteq> []"
    and "formData req = Inr fd" "map_of fd ''audio'' = Some (FormFile f)"
    and "startsWith (file_type f) ''audio/''"
    and "ok r" "up_body r = Inr bodyText" "JSON_parse bodyText = Inr deepgramData"
    and "deepgramData \<noteq> JNull" "deepgramData \<noteq> JUndefined"
    and "\<not> truthy (spec_transcript deepgramData)"
  shows "fst (try_block JSON_parse e req (Inr r) w) =
           Inr \<lparr>resp_body = JObj [(''error'', JStr ''No transcript could be generated from the audio.'')],
                resp_status = 404\<rparr>
         \<and> fst (POST JSON_parse e req (Inr r) w) =
           \<lparr>resp_body = JObj [(''error'', JStr ''No transcript could be generated from the audio.'')],
            resp_status = 404\<rparr>"
proof -
  have "fst (normalize JSON_parse r w') =
          Inr (json_response (error_json ''No transcript could be generated from the audio.'') 404)"
    for w'
    using assms(7,8,11) transcript_path_spec[OF assms(9,10)]
    by (simp add: normalize_def js_or_def NextResponse_json_literal)
  then have "fst (try_block JSON_parse e req (Inr r) w) =
          Inr (json_response (error_json ''No transcript could be generated from the audio.'') 404)"
    using try_block_forward[OF assms(1-5)] forward_ok[OF assms(6)] by simp
  then show ?thesis
    by (cases "try_block JSON_parse e req (Inr r) w")
       (simp add: POST_def json_response_error)
qed

theorem POST_empty_transcript_404_witness:
  "fst (POST (parse_table [(no_channels_text, no_channels_json)]) env0 req0
          (Inr \<lparr>up_status = 200, up_body = Inr no_channels_text\<rparr>) w0) =
     \<lparr>resp_body = JObj [(''error'', JStr ''No transcript could be generated from the audio.'')],
      resp_status = 404\<rparr>"
  using POST_empty_transcript_404[of env0 "''secret''" req0 "[(''audio'', FormFile recording)]" recording
          "\<lparr>up_status = 200, up_body = Inr no_channels_text\<rparr>" no_channels_text
          "parse_table [(no_channels_text, no_channels_json)]" no_channels_json w0]
  by (simp add: env0_def req0_def recording_def startsWith_def ok_def parse_table_def
      no_channels_json_def spec_transcript_def)

text \<open>
  The success body \<^verbatim>\<open>null\<close> has no transcript text, yet the answer is not 404: the first
  access of line 74, \<^verbatim>\<open>deepgramData.results\<close>, is not optional and throws, and the \<^verbatim>\<open>catch\<close>
  answers with the status 500.
\<close>

theorem POST_null_body_counterexample:
  "parse_table [(''null'', JNull)] ''null'' = Inr JNull
   \<and> spec_transcript JNull = JUndefined
   \<and> fst (POST (parse_table [(''null'', JNull)]) env0 req0
             (Inr \<lparr>up_status = 200, up_body = Inr ''null''\<rparr>) w0) =
       \<lparr>resp_body = JObj [(''error'', JStr (''Transcription failed: Cannot read properties of null (reading ''
                     @ [CHR 0x27] @ ''results'' @ [CHR 0x27] @ '')''))],
        resp_status = 500\<rparr>
   \<and> resp_status (fst (POST (parse_table [(''null'', JNull)]) env0 req0
             (Inr \<lparr>up_status = 200, up_body = Inr ''null''\<rparr>) w0)) \<noteq> 404"
  by (simp add: POST_def try_block_def validate_def forward_def normalize_def transcript_path_def
      catch_block_def errorMessage_def cannot_read_def TypeError_def spec_transcript_def
      parse_table_def env0_def req0_def recording_def startsWith_def ok_def
      json_response_error Let_def)

lemma error_of_json_cases:
  "error_of_json JSON_parse errorText =
     (case JSON_parse errorText of
        Inl err \<Rightarrow> Inl err
      | Inr errorJson \<Rightarrow>
          if errorJson = JNull then Inl (cannot_read ''null'' ''error'')
          else if errorJson = JUndefined then Inl (cannot_read ''undefined'' ''error'')
          else if truthy (own_prop errorJson ''error'') then Inr (own_prop errorJson ''error'')
          else if truthy (own_prop errorJson ''message'') then Inr (own_prop errorJson ''message'')
          else Inr (JStr ''Deepgram API error''))"
proof (cases "JSON_parse errorText")
  case (Inl err)
  then show ?thesis by (simp add: error_of_json_def)
next
  case (Inr errorJson)
  then show ?thesis
    by (cases errorJson) (simp_all add: error_of_json_def js_or_def)
qed

lemma accepted_status:
  "300 \<le> s \<Longrightarrow> s \<le> 599 \<Longrightarrow> s \<noteq> 304 \<Longrightarrow> NextResponse_json b s = Inr (json_response b s)"
  by (simp add: NextResponse_json_def refused_def null_body_status_def)

lemma refused_status:
  "refused s = Some err \<Longrightarrow> NextResponse_json b s = Inl err"
  by (simp add: NextResponse_json_def)

text \<open>
  C2, as the code has it. When the provider answers with a status that is not a
  success and that the platform accepts for a response with a body (300 to 599, but
  not 304), and the body is read as text: if the text parses to a value other than
  \<^verbatim>\<open>null\<close>, the handler returns that value's \<^verbatim>\<open>error\<close> property when it is truthy, else its
  \<^verbatim>\<open>message\<close> property when it is truthy, as JSON writes them, else the string "Deepgram
  API error"; if the text does not parse, or parses to \<^verbatim>\<open>null\<close>, it returns "Deepgram API
  error: " followed by the text as it is. In every one of these cases the status of
  the response is the provider's. The credential is configured and the request
  carries an audio file.
\<close>

theorem POST_upstream_error:
  assumes "DEEPGRAM_API_KEY e = Some k" "k \<noteq> []"
    and "formData req = Inr fd" "map_of fd ''audio'' = Some (FormFile f)"
    and "startsWith (file_type f) ''audio/''"
    and "300 \<le> up_status r" "up_status r \<le> 599" "up_status r \<noteq> 304"
    and "up_body r = Inr errorText"
  shows "fst (POST JSON_parse e req (Inr r) w) =
           \<lparr>resp_body = JObj [(''error'',
              (case JSON_parse errorText of
                 Inl err \<Rightarrow> JStr (''Deepgram API error: '' @ errorText)
               | Inr errorJson \<Rightarrow>
                   if errorJson = JNull \<or> errorJson = JUndefined
                   then JStr (''Deepgram API error: '' @ errorText)
                   else if truthy (own_prop errorJson ''error'')
                        then serialized (own_prop errorJson ''error'')
                   else if truthy (own_prop errorJson ''message'')
                        then serialized (own_prop errorJson ''message'')
                   else JStr ''Deepgram API error''))],
            resp_status = up_status r\<rparr>"
proof -
  let ?w1 = "fetch (deepgram_call k f) (announce f w)"
  have not_ok: "\<not> ok r"
    using assms(6) by (simp add: ok_def)
  have "try_block JSON_parse e req (Inr r) w = upstream_error JSON_parse r ?w1"
    using try_block_forward[OF assms(1-5)] forward_not_ok[OF not_ok] by simp
  then have "fst (POST JSON_parse e req (Inr r) w) =
               (case fst (upstream_error JSON_parse r ?w1) of Inr x \<Rightarrow> x
                | Inl err \<Rightarrow> fst (catch_block err (snd (upstream_error JSON_parse r ?w1))))"
    by (simp add: POST_def split: prod.splits sum.splits)
  then show ?thesis
    using assms(9)
    by (simp add: upstream_error_def error_of_json_cases accepted_status[OF assms(6-8)]
        json_response_error json_response_single Let_def split: sum.splits)
qed

theorem POST_upstream_error_witness:
  "fst (POST (parse_table [(bad_audio_text, bad_audio_json)]) env0 req0
          (Inr \<lparr>up_status = 400, up_body = Inr bad_audio_text\<rparr>) w0) =
     \<lparr>resp_body = JObj [(''error'', JStr ''bad audio'')], resp_status = 400\<rparr>"
  using POST_upstream_error[of env0 "''secret''" req0 "[(''audio'', FormFile recording)]" recording
          "\<lparr>up_status = 400, up_body = Inr bad_audio_text\<rparr>" bad_audio_text
          "parse_table [(bad_audio_text, bad_audio_json)]" w0]
  by (simp add: env0_def req0_def recording_def startsWith_def parse_table_def
      bad_audio_json_def)

text \<open>
  The body \<^verbatim>\<open>null\<close> parses, and the parsed value has neither property, yet the answer is
  not the string "Deepgram API error": reading \<^verbatim>\<open>errorJson.error\<close> throws inside the inner
  \<^verbatim>\<open>try\<close>, whose \<^verbatim>\<open>catch\<close> is the branch of the text that does not parse.
\<close>

theorem POST_upstream_error_null_counterexample:
  "parse_table [(''null'', JNull)] ''null'' = Inr JNull
   \<and> own_prop JNull ''error'' = JUndefined \<and> own_prop JNull ''message'' = JUndefined
   \<and> fst (POST (parse_table [(''null'', JNull)]) env0 req0
             (Inr \<lparr>up_status = 500, up_body = Inr ''null''\<rparr>) w0) =
       \<lparr>resp_body = JObj [(''error'', JStr ''Deepgram API error: null'')], resp_status = 500\<rparr>
   \<and> resp_body (fst (POST (parse_table [(''null'', JNull)]) env0 req0
             (Inr \<lparr>up_status = 500, up_body = Inr ''null''\<rparr>) w0)) \<noteq>
       JObj [(''error'', JStr ''Deepgram API error'')]"
  by (simp add: POST_def try_block_def validate_def forward_def upstream_error_def
      error_of_json_def parse_table_def env0_def req0_def recording_def startsWith_def ok_def
      NextResponse_json_literal json_response_error Let_def)

text \<open>
  A status that the platform does not accept for a response with a body makes
  \<^verbatim>\<open>NextResponse.json\<close> throw in the inner \<^verbatim>\<open>try\<close> and again in its \<^verbatim>\<open>catch\<close>; the fault leaves
  the outer \<^verbatim>\<open>try\<close> and the answer has the status 500, not the provider's. The status 304
  is one; so is every status below 200 or above 599.
\<close>

lemma POST_upstream_error_refused:
  assumes "DEEPGRAM_API_KEY e = Some k" "k \<noteq> []"
    and "formData req = Inr fd" "map_of fd ''audio'' = Some (FormFile f)"
    and "startsWith (file_type f) ''audio/''"
    and "\<not> ok r" "refused (up_status r) = Some err" "fault_message err \<noteq> []"
    and "up_body r = Inr errorText"
  shows "fst (POST JSON_parse e req (Inr r) w) =
           \<lparr>resp_body = JObj [(''error'', JStr (''Transcription failed: '' @ fault_message err))],
            resp_status = 500\<rparr>"
proof -
  let ?w1 = "fetch (deepgram_call k f) (announce f w)"
  have "try_block JSON_parse e req (Inr r) w = upstream_error JSON_parse r ?w1"
    using try_block_forward[OF assms(1-5)] forward_not_ok[OF assms(6)] by simp
  moreover have "fst (upstream_error JSON_parse r ?w1) = Inl err"
    using assms(9)
    by (simp add: upstream_error_def refused_status[OF assms(7)] Let_def split: sum.splits)
  ultimately show ?thesis
    using assms(8)
    by (cases "upstream_error JSON_parse r ?w1")
       (simp add: POST_def catch_block_def errorMessage_def json_response_error)
qed

lemma POST_upstream_error_304:
  "fst (POST (parse_table [(bad_audio_text, bad_audio_json)]) env0 req0
          (Inr \<lparr>up_status = 304, up_body = Inr bad_audio_text\<rparr>) w0) =
     \<lparr>resp_body = JObj [(''error'',
        JStr ''Transcription failed: Response constructor: Invalid response status code 304'')],
      resp_status = 500\<rparr>"
  using POST_upstream_error_refused[of env0 "''secret''" req0 "[(''audio'', FormFile recording)]"
          recording "\<lparr>up_status = 304, up_body = Inr bad_audio_text\<rparr>"
          "TypeError ''Response constructor: Invalid response status code 304''" bad_audio_text
          "parse_table [(bad_audio_text, bad_audio_json)]" w0]
  by (simp add: env0_def req0_def recording_def startsWith_def ok_def refused_def
      null_body_status_def TypeError_def)

text \<open>A number that is not finite is written as \<^verbatim>\<open>null\<close>.\<close>

lemma POST_upstream_error_not_finite:
  "fst (POST (parse_table [(too_large_text, too_large_json)]) env0 req0
          (Inr \<lparr>up_status = 400, up_body = Inr too_large_text\<rparr>) w0) =
     \<lparr>resp_body = JObj [(''error'', JNull)], resp_status = 400\<rparr>"
  by (simp add: POST_def try_block_def validate_def forward_def upstream_error_def
      error_of_json_def parse_table_def env0_def req0_def recording_def startsWith_def ok_def
      too_large_json_def NextResponse_json_def refused_def null_body_status_def
      json_response_def Let_def)

subsection \<open>Faults\<close>

lemma NextResponse_json_structured:
  "NextResponse_json (JObj [(k, v)]) s = Inr x \<Longrightarrow> truthy v \<Longrightarrow>
     k = ''error'' \<or> k = ''transcript'' \<Longrightarrow> structured x"
  by (auto simp add: NextResponse_json_def json_response_def structured_def split: option.splits)

lemma error_of_json_truthy: "error_of_json JSON_parse errorText = Inr v \<Longrightarrow> truthy v"
  by (auto simp add: error_of_json_cases split: sum.splits if_splits)

lemma upstream_error_structured:
  assumes "fst (upstream_error JSON_parse r w) = Inr x"
  shows "structured x"
proof (cases "up_body r")
  case (Inl e)
  with assms show ?thesis by (simp add: upstream_error_def)
next
  case (Inr errorText)
  show ?thesis
  proof (cases "error_of_json JSON_parse errorText")
    case (Inl e)
    with Inr assms
    have "NextResponse_json (JObj [(''error'', JStr (''Deepgram API error: '' @ errorText))])
            (up_status r) = Inr x"
      by (simp add: upstream_error_def error_json_def Let_def)
    then show ?thesis by (rule NextResponse_json_structured) simp_all
  next
    case (Inr v)
    then have v: "truthy v" by (rule error_of_json_truthy)
    show ?thesis
    proof (cases "NextResponse_json (JObj [(''error'', v)]) (up_status r)")
      case (Inl e)
      with \<open>up_body r = Inr errorText\<close> Inr assms
      have "NextResponse_json (JObj [(''error'', JStr (''Deepgram API error: '' @ errorText))])
              (up_status r) = Inr x"
        by (simp add: upstream_error_def error_json_def Let_def)
      then show ?thesis by (rule NextResponse_json_structured) simp_all
    next
      case answer: (Inr y)
      with \<open>up_body r = Inr errorText\<close> Inr assms have "y = x"
        by (simp add: upstream_error_def Let_def)
      with answer v show ?thesis by (auto intro: NextResponse_json_structured)
    qed
  qed
qed

lemma normalize_structured:
  "fst (normalize JSON_parse r w) = Inr x \<Longrightarrow> structured x"
  by (auto simp add: normalize_def structured_def NextResponse_json_literal json_response_error
      json_response_single Let_def split: sum.splits if_splits)

lemma forward_structured:
  "fst (forward JSON_parse k f upstream w) = Inr x \<Longrightarrow> structured x"
  by (auto simp add: forward_def Let_def split: sum.splits if_splits
      dest: upstream_error_structured normalize_structured)

lemma validate_structured:
  "fst (validate JSON_parse k a upstream w) = Inr x \<Longrightarrow> structured x"
  by (auto simp add: validate_def structured_def NextResponse_json_literal json_response_def error_json_def
      split: option.splits form_value.splits if_splits dest: forward_structured)

lemma try_block_structured:
  "fst (try_block JSON_parse e req upstream w) = Inr x \<Longrightarrow> structured x"
  by (auto simp add: try_block_def not_configured_def structured_def NextResponse_json_literal json_response_def
      error_json_def split: option.splits sum.splits if_splits dest: validate_structured)

lemma catch_block_structured: "structured (fst (catch_block err w))"
  by (simp add: catch_block_def structured_def NextResponse_json_literal json_response_def error_json_def)

text \<open>
  C7. Whatever is thrown inside the \<^verbatim>\<open>try\<close>, the handler returns the status 500 with an
  \<^verbatim>\<open>error\<close> message: "Transcription failed: " and the message of the fault when it has one,
  "An unknown error occurred: " and the fault as JSON text otherwise. On every input
  the handler returns a response whose body is \<^verbatim>\<open>{error: ...}\<close> or \<^verbatim>\<open>{transcript: ...}\<close>.
\<close>

theorem POST_fault_structured_500:
  "(\<forall>err. fst (try_block JSON_parse e req upstream w) = Inl err \<longrightarrow>
      fst (POST JSON_parse e req upstream w) =
        \<lparr>resp_body = JObj [(''error'', JStr
            (if fault_message err \<noteq> [] then ''Transcription failed: '' @ fault_message err
             else ''An unknown error occurred: '' @ fault_json err))],
         resp_status = 500\<rparr>)
   \<and> structured (fst (POST JSON_parse e req upstream w))"
proof (cases "try_block JSON_parse e req upstream w")
  case (Pair res w')
  show ?thesis
  proof (cases res)
    case (Inl err)
    with Pair show ?thesis
      by (simp add: POST_def catch_block_def errorMessage_def NextResponse_json_literal json_response_def error_json_def
          structured_def)
  next
    case (Inr x)
    with Pair have "structured x"
      using try_block_structured[of JSON_parse e req upstream w x] by simp
    with Pair Inr show ?thesis by (simp add: POST_def)
  qed
qed

theorem POST_fault_structured_500_witness:
  "fst (try_block (parse_table []) env0 req0 (Inl fetch_failed) w0) = Inl fetch_failed
   \<and> fst (POST (parse_table []) env0 req0 (Inl fetch_failed) w0) =
        \<lparr>resp_body = JObj [(''error'', JStr ''Transcription failed: fetch failed'')],
         resp_status = 500\<rparr>"
proof -
  have thrown: "fst (try_block (parse_table []) env0 req0 (Inl fetch_failed) w0) = Inl fetch_failed"
    by (simp add: try_block_def validate_def forward_def env0_def req0_def recording_def
        startsWith_def Let_def)
  from POST_fault_structured_500[of "parse_table []" env0 req0 "Inl fetch_failed" w0] thrown
  show ?thesis by (simp add: fetch_failed_def)
qed

text \<open>
  Where the faults come from, besides \<^verbatim>\<open>req.formData()\<close>: a \<^verbatim>\<open>fetch\<close> that rejects, a
  success body that does not parse or parses to \<^verbatim>\<open>null\<close>, and an \<^verbatim>\<open>audio\<close> field that is a
  non-empty text instead of a file.
\<close>

lemma fault_of_fetch:
  assumes "DEEPGRAM_API_KEY e = Some k" "k \<noteq> []"
    and "formData req = Inr fd" "map_of fd ''audio'' = Some (FormFile f)"
    and "startsWith (file_type f) ''audio/''"
  shows "fst (try_block JSON_parse e req (Inl err) w) = Inl err"
  using try_block_forward[OF assms] by (simp add: forward_def Let_def)

lemma fault_of_success_body:
  assumes "DEEPGRAM_API_KEY e = Some k" "k \<noteq> []"
    and "formData req = Inr fd" "map_of fd ''audio'' = Some (FormFile f)"
    and "startsWith (file_type f) ''audio/''"
    and "ok r" "up_body r = Inr bodyText"
    and "JSON_parse bodyText = Inl err \<or> (JSON_parse bodyText = Inr JNull \<and> err = cannot_read ''null'' ''results'')"
  shows "fst (try_block JSON_parse e req (Inr r) w) = Inl err"
  using try_block_forward[OF assms(1-5)] forward_ok[OF assms(6)] assms(7,8)
  by (auto simp add: normalize_def transcript_path_def)

lemma fault_of_text_field:
  assumes "DEEPGRAM_API_KEY e = Some k" "k \<noteq> []"
    and "formData req = Inr fd" "map_of fd ''audio'' = Some (FormString s)" "s \<noteq> []"
  shows "fst (try_block JSON_parse e req upstream w) = Inl (cannot_read ''undefined'' ''startsWith'')"
  using assms by (simp add: try_block_def validate_def)

subsection \<open>What is sent to the provider\<close>

lemma upstream_error_fetched: "fetched (snd (upstream_error JSON_parse r w)) = fetched w"
  by (simp add: upstream_error_def console_error_def Let_def split: sum.splits)

lemma normalize_fetched: "fetched (snd (normalize JSON_parse r w)) = fetched w"
  by (simp add: normalize_def console_warn_def Let_def split: sum.splits)

lemma announce_fetched: "fetched (announce f w) = fetched w"
  by (simp add: announce_def console_log_def)

lemma forward_fetched:
  "fetched (snd (forward JSON_parse k f upstream w)) = fetched w @ [deepgram_call k f]"
  by (simp add: forward_def Let_def fetch_def announce_fetched upstream_error_fetched
      normalize_fetched split: sum.splits)

lemma catch_block_fetched: "fetched (snd (catch_block err w)) = fetched w"
  by (simp add: catch_block_def console_error_def)

lemma POST_fetched:
  "fetched (snd (POST JSON_parse e req upstream w)) =
     fetched (snd (try_block JSON_parse e req upstream w))"
  by (simp add: POST_def catch_block_fetched split: prod.splits sum.splits)

lemma validate_fetched:
  "fetched (snd (validate JSON_parse k a upstream w)) =
     (case a of
        Some (FormFile f) \<Rightarrow>
          if startsWith (file_type f) ''audio/'' then fetched w @ [deepgram_call k f] else fetched w
      | _ \<Rightarrow> fetched w)"
  by (simp add: validate_def console_error_def forward_fetched
      split: option.splits form_value.splits)

text \<open>
  C8, as the code has it. Whenever the handler makes a call to the provider, the
  \<^verbatim>\<open>audio\<close> field of the request is a file whose declared type starts with \<^verbatim>\<open>audio/\<close>, and the
  call is the one call that carries this type as its \<^verbatim>\<open>Content-Type\<close> and the bytes of the
  file as its body. The handler does not look at the number of bytes.
\<close>

theorem POST_forwards_audio_type:
  assumes "fetched (snd (POST JSON_parse e req upstream w)) \<noteq> fetched w"
  shows "\<exists>k fd f. DEEPGRAM_API_KEY e = Some k \<and> formData req = Inr fd
           \<and> map_of fd ''audio'' = Some (FormFile f)
           \<and> startsWith (file_type f) ''audio/''
           \<and> fetched (snd (POST JSON_parse e req upstream w)) =
               fetched w @ [\<lparr>out_url = deepgram_url, out_method = ''POST'',
                             out_headers = [(''Authorization'', ''Token '' @ k),
                                            (''Content-Type'', file_type f)],
                             out_body = file_bytes f\<rparr>]"
proof -
  from assms have changed: "fetched (snd (try_block JSON_parse e req upstream w)) \<noteq> fetched w"
    by (simp add: POST_fetched)
  then obtain k where k: "DEEPGRAM_API_KEY e = Some k" "k \<noteq> []"
    by (auto simp add: try_block_def not_configured_def console_error_def
        split: option.splits if_splits)
  with changed obtain fd where fd: "formData req = Inr fd"
    by (auto simp add: try_block_def split: sum.splits)
  with k have step: "try_block JSON_parse e req upstream w =
      validate JSON_parse k (map_of fd ''audio'') upstream w"
    by (simp add: try_block_def)
  with changed obtain f where f: "map_of fd ''audio'' = Some (FormFile f)"
      "startsWith (file_type f) ''audio/''"
    by (auto simp add: validate_fetched split: option.splits form_value.splits if_splits)
  then have "fetched (snd (POST JSON_parse e req upstream w)) = fetched w @ [deepgram_call k f]"
    by (simp add: POST_fetched step validate_fetched)
  with k fd f show ?thesis
    by (simp add: deepgram_call_def)
qed

theorem POST_forwards_audio_type_witness:
  "fetched (snd (POST (parse_table [(hello_text, hello_json)]) env0 req0
      (Inr \<lparr>up_status = 200, up_body = Inr hello_text\<rparr>) w0)) \<noteq> fetched w0
   \<and> (\<exists>k fd f. DEEPGRAM_API_KEY env0 = Some k \<and> formData req0 = Inr fd
           \<and> map_of fd ''audio'' = Some (FormFile f)
           \<and> startsWith (file_type f) ''audio/''
           \<and> fetched (snd (POST (parse_table [(hello_text, hello_json)]) env0 req0
                 (Inr \<lparr>up_status = 200, up_body = Inr hello_text\<rparr>) w0)) =
               fetched w0 @ [\<lparr>out_url = deepgram_url, out_method = ''POST'',
                             out_headers = [(''Authorization'', ''Token '' @ k),
                                            (''Content-Type'', file_type f)],
                             out_body = file_bytes f\<rparr>])"
proof -
  have changed: "fetched (snd (POST (parse_table [(hello_text, hello_json)]) env0 req0
      (Inr \<lparr>up_status = 200, up_body = Inr hello_text\<rparr>) w0)) \<noteq> fetched w0"
    by (simp add: POST_fetched try_block_def validate_fetched env0_def req0_def recording_def
        startsWith_def w0_def)
  from changed POST_forwards_audio_type[OF changed] show ?thesis by blast
qed

text \<open>
  A file of type \<^verbatim>\<open>audio/webm\<close> with no bytes passes both checks and is sent to the provider
  with an empty body.
\<close>

theorem POST_empty_payload_counterexample:
  "file_bytes silence = []
   \<and> fetched (snd (POST (parse_table [(hello_text, hello_json)]) env0
        \<lparr>formData = Inr [(''audio'', FormFile silence)]\<rparr>
        (Inr \<lparr>up_status = 200, up_body = Inr hello_text\<rparr>) w0)) =
      [\<lparr>out_url = ''https://api.deepgram.com/v1/listen?model=nova-2&smart_format=true&punctuate=true'',
        out_method = ''POST'',
        out_headers = [(''Authorization'', ''Token secret''), (''Content-Type'', ''audio/webm'')],
        out_body = []\<rparr>]"
  by (simp add: POST_fetched try_block_def validate_fetched env0_def silence_def
        startsWith_def w0_def deepgram_call_def deepgram_url_def)

subsection \<open>The credential\<close>











end
